theory Spec2Isabelle
  imports Main "HOL-Library.Sublist"
begin

section \<open>Strings\<close>

text \<open>
  A Python \<open>str\<close> is modelled as a \<open>string\<close> with one \<open>char\<close> for each code point, so the
  model holds the strings whose code points are below 256. On these \<open>str.lower\<close> works
  character by character and changes exactly the capital letters \<open>A\<close> to \<open>Z\<close> and the
  capital letters U+00C0 to U+00DE, the multiplication sign U+00D7 left out, each to the
  code point 32 above it.
\<close>

definition lower_char :: "char \<Rightarrow> char" where
  "lower_char c =
     (let n = of_char c :: nat
      in if (0x41 \<le> n \<and> n \<le> 0x5A) \<or> (0xC0 \<le> n \<and> n \<le> 0xDE \<and> n \<noteq> 0xD7)
         then char_of (n + 0x20)
         else c)"

definition lower :: "string \<Rightarrow> string" where
  "lower s = map lower_char s"

text \<open>\<open>sep.join(xs)\<close>\<close>

fun join :: "string \<Rightarrow> string list \<Rightarrow> string" where
  "join sep [] = []"
| "join sep [x] = x"
| "join sep (x # y # ys) = x @ sep @ join sep (y # ys)"

section \<open>Exceptions\<close>

text \<open>
  The exceptions the modelled code can raise, each with its message. \<open>Unsupported\<close> marks a
  replacement field that uses a feature of \<open>str.format\<close> left out of the model below
  (conversions, format specifications, attribute and index access).
\<close>

datatype exn =
    ValueError string
  | KeyError string
  | IndexError string
  | Unsupported string

text \<open>The two failures of \<open>get_prompt\<close>, under the names of the error taxonomy.\<close>

definition UnknownOperation :: "string \<Rightarrow> exn" where
  "UnknownOperation name = ValueError (''Unknown prompt: '' @ name)"

definition MissingArgument :: exn where
  "MissingArgument = ValueError ''Missing required argument: topic''"

section \<open>\<open>str.format\<close> with keyword arguments\<close>

text \<open>
  A format string is a sequence of literal characters and replacement fields \<open>{name}\<close>;
  \<open>{{\<close> and \<open>}}\<close> stand for a literal brace. The string is read from left to right, so a
  malformed tail is only reported after everything before it has been substituted.
\<close>

datatype segment =
    Lit char
  | Field string
  | Malformed exn

text \<open>
  The scanner. Its first argument is \<open>None\<close> while it reads literal text, and \<open>Some n\<close>
  inside a replacement field of which the characters \<open>n\<close> have been read.
\<close>

fun scan :: "string option \<Rightarrow> string \<Rightarrow> segment list" where
  "scan None [] = []"
| "scan (Some n) [] = [Malformed (ValueError ''expected '}' before end of string'')]"
| "scan (Some n) (c # cs) =
     (if c = CHR ''}'' then Field n # scan None cs
      else scan (Some (n @ [c])) cs)"
| "scan None (c # cs) =
     (if c = CHR ''{'' then
        (case cs of
           [] \<Rightarrow> [Malformed (ValueError ''Single '{' encountered in format string'')]
         | d # ds \<Rightarrow>
             if d = CHR ''{'' then Lit (CHR ''{'') # scan None ds
             else scan (Some []) cs)
      else if c = CHR ''}'' then
        (case cs of
           [] \<Rightarrow> [Malformed (ValueError ''Single '}' encountered in format string'')]
         | d # ds \<Rightarrow>
             if d = CHR ''}'' then Lit (CHR ''}'') # scan None ds
             else [Malformed (ValueError ''Single '}' encountered in format string'')])
      else Lit c # scan None cs)"

definition parse_format :: "string \<Rightarrow> segment list" where
  "parse_format template = scan None template"

text \<open>
  The value of one replacement field. An empty or numeric name is a positional argument,
  and none is ever passed (the message of the \<open>IndexError\<close> is kept without the index it
  names); a name is looked up among the keyword arguments, whose values are strings and are
  inserted as they are. A name with a conversion, a format specification or an attribute or
  index access is answered with \<open>Unsupported\<close>, not formatted.
\<close>

definition field_value :: "(string \<times> string) list \<Rightarrow> string \<Rightarrow> exn + string" where
  "field_value kwargs n =
     (if list_ex (\<lambda>c. c \<in> set ''!:.[{'') n then Inl (Unsupported n)
      else if list_all (\<lambda>c. c \<in> set ''0123456789'') n then
        Inl (IndexError ''Replacement index out of range for positional args tuple'')
      else (case map_of kwargs n of
              None \<Rightarrow> Inl (KeyError n)
            | Some v \<Rightarrow> Inr v))"

fun render :: "(string \<times> string) list \<Rightarrow> segment list \<Rightarrow> exn + string" where
  "render kwargs [] = Inr []"
| "render kwargs (Lit c # segs) =
     (case render kwargs segs of
        Inl e \<Rightarrow> Inl e
      | Inr s \<Rightarrow> Inr (c # s))"
| "render kwargs (Field n # segs) =
     (case field_value kwargs n of
        Inl e \<Rightarrow> Inl e
      | Inr v \<Rightarrow> (case render kwargs segs of
                    Inl e \<Rightarrow> Inl e
                  | Inr s \<Rightarrow> Inr (v @ s)))"
| "render kwargs (Malformed e # segs) = Inl e"

definition format_kw :: "string \<Rightarrow> (string \<times> string) list \<Rightarrow> exn + string" where
  "format_kw template kwargs = render kwargs (parse_format template)"

text \<open>The names of the replacement fields of a format string, in order.\<close>

fun slots :: "segment list \<Rightarrow> string list" where
  "slots [] = []"
| "slots (Field n # segs) = n # slots segs"
| "slots (_ # segs) = slots segs"

fun well_formed :: "segment list \<Rightarrow> bool" where
  "well_formed [] = True"
| "well_formed (Malformed e # segs) = False"
| "well_formed (_ # segs) = well_formed segs"

section \<open>The style catalog\<close>

text \<open>
  \<open>JOKE_STYLES\<close>: a dictionary literal, kept as an association list in declaration order
  (the order in which a Python dictionary iterates).
\<close>

definition JOKE_STYLES :: "(string \<times> string) list" where
  "JOKE_STYLES =
    [(''pun'',
      ''You are an expert comedian specializing in puns and wordplay. Create a clever pun-based dad joke about {topic} that plays on multiple meanings of words. The joke should be groan-worthy but clever, appropriate for all ages.''),
     (''wordplay'',
      ''You are a master of linguistic humor and wordplay. Create a dad joke about {topic} that uses creative word combinations, homophones, or unexpected word associations. Keep it family-friendly and punny.''),
     (''observational'',
      ''You are a comedian skilled in observational humor. Create a dad joke about {topic} that points out something funny or absurd about everyday situations. Make it relatable and wholesome.''),
     (''anti-humor'',
      ''You are a comedian who specializes in anti-humor and anti-jokes. Create a dad joke about {topic} that subverts expectations with an unexpectedly literal or mundane punchline. The humor comes from the lack of a traditional punchline.''),
     (''question-answer'',
      ''You are an expert at question-and-answer style dad jokes. Create a dad joke about {topic} in the classic 'Why did the X...? Because...' or 'What do you call...?' format. Make it punny and groan-inducing.''),
     (''one-liner'',
      ''You are a master of concise one-liner jokes. Create a short, punchy dad joke about {topic} that delivers the humor in a single sentence. Focus on wordplay or unexpected twists.''),
     (''knock-knock'',
      ''You are skilled at creating knock-knock jokes. Create a knock-knock joke about {topic} that uses clever wordplay. Follow the classic format: 'Knock knock. Who's there? [X]. [X] who? [Punchline].'' @ [CHR 0x27]),
     (''classic'',
      ''You are an expert comedian skilled with puns and dad jokes. Create a joke about {topic} that is appropriate for a workplace. Use classic dad joke style with groan-worthy puns and wholesome humor.'')]"

text \<open>\<open>JOKE_STYLES.keys()\<close>\<close>

definition keys :: "(string \<times> string) list \<Rightarrow> string list" where
  "keys d = map fst d"

section \<open>Protocol types\<close>

text \<open>The classes of \<open>mcp.types\<close> that the server builds, with the fields it sets.\<close>

record TextContent =
  tc_type :: string
  tc_text :: string

record PromptMessage =
  pm_role :: string
  pm_content :: TextContent

record GetPromptResult =
  gpr_description :: string
  gpr_messages :: "PromptMessage list"

record PromptArgument =
  pa_name :: string
  pa_description :: string
  pa_required :: bool

record Prompt =
  p_name :: string
  p_description :: string
  p_arguments :: "PromptArgument list"

section \<open>Settings, ambient values and the log\<close>

text \<open>The two fields of \<open>Settings\<close> that the handlers read.\<close>

record Settings =
  log_requests :: bool
  log_responses :: bool

text \<open>
  What a call draws from outside its arguments: the identifier made by \<open>uuid.uuid4()\<close> and
  the clock read by \<open>log_request\<close> and by \<open>log_response\<close>.
\<close>

record Ambient =
  uuid4 :: string
  utcnow_request :: string
  utcnow_response :: string

text \<open>
  Values passed to the logger. \<open>DumpPrompt\<close> and \<open>DumpResult\<close> stand for the
  \<open>model_dump()\<close> of a protocol object.
\<close>

datatype pyval =
    PNone
  | PStr string
  | PInt nat
  | PList "pyval list"
  | PDict "(string \<times> pyval) list"
  | DumpPrompt Prompt
  | DumpResult GetPromptResult

datatype level = INFO | WARNING | ERROR

record LogRecord =
  levelname :: level
  msg :: string
  extra :: "(string \<times> pyval) list"

definition log_request :: "Settings \<Rightarrow> string \<Rightarrow> string \<Rightarrow> string \<Rightarrow> pyval \<Rightarrow> LogRecord list" where
  "log_request settings now request_id request_type data =
     (if log_requests settings then
        [\<lparr>levelname = INFO, msg = ''Incoming MCP request'',
          extra = [(''request_id'', PStr request_id),
                   (''request_type'', PStr request_type),
                   (''request_data'', data),
                   (''timestamp'', PStr now)]\<rparr>]
      else [])"

definition log_response :: "Settings \<Rightarrow> string \<Rightarrow> string \<Rightarrow> string \<Rightarrow> pyval \<Rightarrow> LogRecord list" where
  "log_response settings now request_id request_type response =
     (if log_responses settings then
        [\<lparr>levelname = INFO, msg = ''Outgoing MCP response'',
          extra = [(''request_id'', PStr request_id),
                   (''request_type'', PStr request_type),
                   (''response_data'', response),
                   (''timestamp'', PStr now)]\<rparr>]
      else [])"

section \<open>The handlers\<close>

text \<open>
  Each handler returns the records it hands to the logger, in order, and its outcome.
\<close>

definition list_prompts :: "Settings \<Rightarrow> Ambient \<Rightarrow> LogRecord list \<times> Prompt list" where
  "list_prompts settings amb =
     (let request_id = uuid4 amb;
          prompts =
            [\<lparr>p_name = ''dad_joke'',
              p_description = ''Generate a dad joke prompt about any topic. Supports multiple joke styles.'',
              p_arguments =
                [\<lparr>pa_name = ''topic'',
                  pa_description = ''The topic or subject for the dad joke'',
                  pa_required = True\<rparr>,
                 \<lparr>pa_name = ''style'',
                  pa_description = ''The style of dad joke. Options: ''
                                   @ join '', '' (keys JOKE_STYLES)
                                   @ ''. Default: classic'',
                  pa_required = False\<rparr>]\<rparr>]
      in (log_request settings (utcnow_request amb) request_id ''list_prompts'' (PDict [])
          @ log_response settings (utcnow_response amb) request_id ''list_prompts''
              (PList (map DumpPrompt prompts))
          @ [\<lparr>levelname = INFO, msg = ''Listed available prompts'',
               extra = [(''request_id'', PStr request_id),
                        (''prompt_count'', PInt (length prompts)),
                        (''prompt_names'', PList (map (\<lambda>p. PStr (p_name p)) prompts))]\<rparr>],
          prompts))"

text \<open>The \<open>arguments\<close> parameter as the logger receives it.\<close>

definition arguments_val :: "(string \<times> string) list option \<Rightarrow> pyval" where
  "arguments_val arguments =
     (case arguments of
        None \<Rightarrow> PNone
      | Some a \<Rightarrow> PDict (map (\<lambda>(k, v). (k, PStr v)) a))"

text \<open>The branch of \<open>get_prompt\<close> taken when \<open>topic\<close> is not among the arguments.\<close>

definition missing_topic ::
  "LogRecord list \<Rightarrow> string \<Rightarrow> (string \<times> string) list option
     \<Rightarrow> LogRecord list \<times> (exn + GetPromptResult)" where
  "missing_topic log request_id arguments =
     (log @ [\<lparr>levelname = ERROR, msg = ''Missing required argument: topic'',
                extra = [(''request_id'', PStr request_id),
                         (''arguments'', arguments_val arguments)]\<rparr>],
      Inl (ValueError ''Missing required argument: topic''))"

text \<open>
  \<open>arguments\<close> is \<open>None\<close> or a dictionary from strings to strings, kept as an association
  list and read with \<open>map_of\<close>. The test \<open>not arguments\<close> holds of \<open>None\<close> and of the empty
  dictionary.
\<close>

definition get_prompt ::
  "Settings \<Rightarrow> Ambient \<Rightarrow> string \<Rightarrow> (string \<times> string) list option
     \<Rightarrow> LogRecord list \<times> (exn + GetPromptResult)" where
  "get_prompt settings amb name arguments =
     (let request_id = uuid4 amb;
          log0 = log_request settings (utcnow_request amb) request_id ''get_prompt''
                   (PDict [(''name'', PStr name), (''arguments'', arguments_val arguments)])
      in if name \<noteq> ''dad_joke'' then
           (log0 @ [\<lparr>levelname = ERROR, msg = ''Unknown prompt: '' @ name,
                      extra = [(''request_id'', PStr request_id),
                               (''prompt_name'', PStr name)]\<rparr>],
            Inl (ValueError (''Unknown prompt: '' @ name)))
         else
           (case arguments of
              None \<Rightarrow> missing_topic log0 request_id arguments
            | Some a \<Rightarrow>
                if a = [] then missing_topic log0 request_id arguments
                else
                  (case map_of a ''topic'' of
                     None \<Rightarrow> missing_topic log0 request_id arguments
                   | Some topic \<Rightarrow>
                       (let style0 = lower (case map_of a ''style'' of
                                              None \<Rightarrow> ''classic''
                                            | Some s \<Rightarrow> s);
                            unknown = (map_of JOKE_STYLES style0 = None);
                            log1 = log0 @
                              (if unknown then
                                 [\<lparr>levelname = WARNING,
                                   msg = ''Unknown joke style '' @ [CHR 0x27] @ style0
                                         @ [CHR 0x27] @ '', falling back to 'classic''
                                         @ [CHR 0x27],
                                   extra = [(''request_id'', PStr request_id),
                                            (''requested_style'', PStr style0),
                                            (''available_styles'',
                                             PList (map PStr (keys JOKE_STYLES)))]\<rparr>]
                               else []);
                            style = (if unknown then ''classic'' else style0)
                        in (case map_of JOKE_STYLES style of
                              None \<Rightarrow> (log1, Inl (KeyError style))
                            | Some template \<Rightarrow>
                                (case format_kw template [(''topic'', topic)] of
                                   Inl e \<Rightarrow> (log1, Inl e)
                                 | Inr prompt_text \<Rightarrow>
                                     (let result =
                                        \<lparr>gpr_description = ''Dad joke prompt about '' @ topic
                                                            @ '' in '' @ style @ '' style'',
                                         gpr_messages =
                                           [\<lparr>pm_role = ''user'',
                                             pm_content = \<lparr>tc_type = ''text'',
                                                           tc_text = prompt_text\<rparr>\<rparr>]\<rparr>
                                      in (log1
                                          @ log_response settings (utcnow_response amb) request_id
                                              ''get_prompt'' (DumpResult result)
                                          @ [\<lparr>levelname = INFO, msg = ''Generated dad joke prompt'',
                                               extra = [(''request_id'', PStr request_id),
                                                        (''topic'', PStr topic),
                                                        (''style'', PStr style),
                                                        (''prompt_length'',
                                                         PInt (length prompt_text))]\<rparr>],
                                          Inr result))))))))"

text \<open>\<open>settings = Settings()\<close> with the defaults of the class.\<close>

definition default_settings :: Settings where
  "default_settings = \<lparr>log_requests = True, log_responses = True\<rparr>"

section \<open>Vocabulary of the properties\<close>

text \<open>A string without braces: \<open>str.format\<close> copies it unchanged.\<close>

definition plain :: "string \<Rightarrow> bool" where
  "plain s = list_all (\<lambda>c. c \<noteq> CHR ''{'' \<and> c \<noteq> CHR ''}'') s"

text \<open>The text of a template before its first opening and after its first closing brace.\<close>

definition before_slot :: "string \<Rightarrow> string" where
  "before_slot t = takeWhile (\<lambda>c. c \<noteq> CHR ''{'') t"

definition after_slot :: "string \<Rightarrow> string" where
  "after_slot t = drop 1 (dropWhile (\<lambda>c. c \<noteq> CHR ''}'') t)"

text \<open>A template with exactly one replacement field, named \<open>topic\<close>, and no other brace.\<close>

definition one_topic_slot :: "string \<Rightarrow> bool" where
  "one_topic_slot t =
     (t = before_slot t @ ''{topic}'' @ after_slot t
      \<and> plain (before_slot t) \<and> plain (after_slot t))"

text \<open>The whole topic put in place of the whole slot.\<close>

definition substitute :: "string \<Rightarrow> string \<Rightarrow> string" where
  "substitute t topic = before_slot t @ topic @ after_slot t"

definition template_of :: "string \<Rightarrow> string" where
  "template_of style = (case map_of JOKE_STYLES style of None \<Rightarrow> [] | Some t \<Rightarrow> t)"

text \<open>
  The style a request resolves to: the requested one in lower case when the catalog has it,
  \<open>classic\<close> when no style is given or the catalog does not have it.
\<close>

definition resolved_style :: "string option \<Rightarrow> string" where
  "resolved_style requested =
     (case requested of
        None \<Rightarrow> ''classic''
      | Some s \<Rightarrow> if lower s \<in> set (keys JOKE_STYLES) then lower s else ''classic'')"

text \<open>The response for a topic and a resolved style.\<close>

definition response :: "string \<Rightarrow> string \<Rightarrow> GetPromptResult" where
  "response topic style =
     \<lparr>gpr_description = ''Dad joke prompt about '' @ topic @ '' in '' @ style @ '' style'',
      gpr_messages = [\<lparr>pm_role = ''user'',
                       pm_content = \<lparr>tc_type = ''text'',
                                     tc_text = substitute (template_of style) topic\<rparr>\<rparr>]\<rparr>"

text \<open>What \<open>get_prompt\<close> returns or raises, as a function of its two parameters alone.\<close>

definition outcome :: "string \<Rightarrow> (string \<times> string) list option \<Rightarrow> exn + GetPromptResult" where
  "outcome name arguments =
     (if name \<noteq> ''dad_joke'' then Inl (UnknownOperation name)
      else (case arguments of
              None \<Rightarrow> Inl MissingArgument
            | Some a \<Rightarrow>
                (case map_of a ''topic'' of
                   None \<Rightarrow> Inl MissingArgument
                 | Some topic \<Rightarrow> Inr (response topic (resolved_style (map_of a ''style''))))))"

text \<open>Observations on an outcome.\<close>

definition succeeded :: "exn + GetPromptResult \<Rightarrow> bool" where
  "succeeded r = (case r of Inl e \<Rightarrow> False | Inr x \<Rightarrow> True)"

definition message_texts :: "exn + GetPromptResult \<Rightarrow> string list" where
  "message_texts r =
     (case r of
        Inl e \<Rightarrow> []
      | Inr x \<Rightarrow> map (\<lambda>m. tc_text (pm_content m)) (gpr_messages x))"

text \<open>\<open>s.split(sep)\<close> for a separator of one or more characters.\<close>

function split_from :: "string \<Rightarrow> string \<Rightarrow> string \<Rightarrow> string list" where
  "split_from sep cur [] = [cur]"
| "split_from sep cur (c # cs) =
     (if sep \<noteq> [] \<and> prefix sep (c # cs)
      then cur # split_from sep [] (drop (length sep) (c # cs))
      else split_from sep (cur @ [c]) cs)"
  by pat_completeness auto

termination
  by (relation "measure (\<lambda>(sep, cur, s). length s)") auto

definition split :: "string \<Rightarrow> string \<Rightarrow> string list" where
  "split s sep = split_from sep [] s"

text \<open>One draw of the ambient values, for evaluating the handlers on concrete requests.\<close>

definition sample_ambient :: Ambient where
  "sample_ambient =
     \<lparr>uuid4 = ''6f1c2a9e-3b7d-4e58-9a10-5c2d8e4f7b31'',
      utcnow_request = ''2024-05-17T09:30:00.000120'',
      utcnow_response = ''2024-05-17T09:30:00.000480''\<rparr>"

section \<open>Substitution into a one-slot template\<close>

lemma scan_plain:
  "plain pre \<Longrightarrow> scan None (pre @ rest) = map Lit pre @ scan None rest"
  by (induction pre) (auto simp: plain_def)

lemma scan_field:
  "CHR ''}'' \<notin> set n \<Longrightarrow> scan (Some acc) (n @ CHR ''}'' # rest) = Field (acc @ n) # scan None rest"
  by (induction n arbitrary: acc) auto

lemma render_lits:
  "render kw (map Lit pre @ segs) = (case render kw segs of Inl e \<Rightarrow> Inl e | Inr s \<Rightarrow> Inr (pre @ s))"
  by (induction pre) (auto split: sum.splits)

lemma parse_one_slot:
  assumes "plain pre" "plain post"
  shows "parse_format (pre @ ''{topic}'' @ post) = map Lit pre @ Field ''topic'' # map Lit post"
proof -
  have "scan None (''{topic}'' @ post) = Field ''topic'' # scan None post"
    by simp
  moreover have "scan None post = map Lit post"
    using scan_plain [OF assms(2), of "[]"] by simp
  ultimately show ?thesis
    using scan_plain [OF assms(1)] by (simp add: parse_format_def)
qed

lemma field_value_topic: "field_value [(''topic'', T)] ''topic'' = Inr T"
  by (simp add: field_value_def)

lemma format_one_slot:
  assumes "plain pre" "plain post"
  shows "format_kw (pre @ ''{topic}'' @ post) [(''topic'', T)] = Inr (pre @ T @ post)"
proof -
  let ?kw = "[(''topic'', T)]"
  have r: "render ?kw (map Lit post) = Inr post"
    using render_lits [of ?kw post "[]"] by simp
  have "format_kw (pre @ ''{topic}'' @ post) ?kw
          = render ?kw (map Lit pre @ Field ''topic'' # map Lit post)"
    unfolding format_kw_def parse_one_slot [OF assms] ..
  also have "\<dots> = Inr (pre @ T @ post)"
    by (simp add: render_lits field_value_topic r)
  finally show ?thesis .
qed

lemma catalog_slots: "list_all (\<lambda>(k, t). one_topic_slot t) JOKE_STYLES"
  by code_simp

lemma split_join_keys: "split (join '', '' (keys JOKE_STYLES)) '', '' = keys JOKE_STYLES"
  by code_simp

section \<open>The outcome of \<open>get_prompt\<close>\<close>

lemma format_slot:
  assumes "one_topic_slot t"
  shows "format_kw t [(''topic'', T)] = Inr (substitute t T)"
proof -
  from assms have eq: "t = before_slot t @ ''{topic}'' @ after_slot t"
    and p: "plain (before_slot t)" "plain (after_slot t)"
    by (simp_all add: one_topic_slot_def)
  have "format_kw (before_slot t @ ''{topic}'' @ after_slot t) [(''topic'', T)]
          = Inr (before_slot t @ T @ after_slot t)"
    using p by (rule format_one_slot)
  with eq show ?thesis by (simp add: substitute_def)
qed

lemma catalog_lookup: "map_of JOKE_STYLES s = Some t \<Longrightarrow> one_topic_slot t"
proof -
  assume "map_of JOKE_STYLES s = Some t"
  then have "(s, t) \<in> set JOKE_STYLES" by (rule map_of_SomeD)
  with catalog_slots show ?thesis by (auto simp: list_all_iff)
qed

lemma format_template:
  "map_of JOKE_STYLES s = Some t \<Longrightarrow> format_kw t [(''topic'', T)] = Inr (substitute t T)"
  by (rule format_slot) (rule catalog_lookup)

lemma in_keys: "s \<in> set (keys JOKE_STYLES) \<longleftrightarrow> map_of JOKE_STYLES s \<noteq> None"
  by (simp add: keys_def map_of_eq_None_iff)

lemma classic_in_keys: "''classic'' \<in> set (keys JOKE_STYLES)"
  by (simp add: keys_def JOKE_STYLES_def)

lemma lower_classic: "lower ''classic'' = ''classic''"
  by code_simp

lemma resolved_in_keys: "resolved_style so \<in> set (keys JOKE_STYLES)"
  by (simp add: resolved_style_def classic_in_keys split: option.splits)

lemma template_of_Some:
  "map_of JOKE_STYLES s = Some t \<Longrightarrow> template_of s = t"
  by (simp add: template_of_def)

lemma get_prompt_outcome:
  "snd (get_prompt st amb name arguments) = outcome name arguments"
proof (cases "name = ''dad_joke''")
  case False
  then show ?thesis
    by (simp add: get_prompt_def outcome_def UnknownOperation_def Let_def)
next
  case dad: True
  show ?thesis
  proof (cases arguments)
    case None
    with dad show ?thesis
      by (simp add: get_prompt_def outcome_def missing_topic_def MissingArgument_def Let_def)
  next
    case (Some a)
    note args = this
    show ?thesis
    proof (cases "map_of a ''topic''")
      case None
      with dad args show ?thesis
        by (simp add: get_prompt_def outcome_def missing_topic_def MissingArgument_def Let_def)
    next
      case (Some T)
      then have ne: "a \<noteq> []" by auto
      define s0 where "s0 = lower (case map_of a ''style'' of None \<Rightarrow> ''classic'' | Some s \<Rightarrow> s)"
      define style where "style = (if map_of JOKE_STYLES s0 = None then ''classic'' else s0)"
      have rs: "style = resolved_style (map_of a ''style'')"
        by (simp add: style_def s0_def resolved_style_def in_keys lower_classic
                      classic_in_keys [unfolded in_keys] split: option.splits)
      then have "style \<in> set (keys JOKE_STYLES)"
        by (simp add: resolved_in_keys)
      then obtain t where t: "map_of JOKE_STYLES style = Some t"
        by (auto simp: in_keys)
      have out: "outcome name arguments = Inr (response T style)"
        using dad args Some by (simp add: outcome_def rs)
      have "snd (get_prompt st amb name arguments) = Inr (response T style)"
        using dad args Some ne t format_template [OF t, of T] template_of_Some [OF t]
        by (simp add: get_prompt_def Let_def response_def flip: s0_def style_def)
      with out show ?thesis by simp
    qed
  qed
qed

section \<open>Facts about the catalog\<close>

lemma lower_char_code_point:
  "(of_char (lower_char c) :: nat)
     = (if (0x41 \<le> (of_char c :: nat) \<and> (of_char c :: nat) \<le> 0x5A)
           \<or> (0xC0 \<le> (of_char c :: nat) \<and> (of_char c :: nat) \<le> 0xDE
               \<and> (of_char c :: nat) \<noteq> 0xD7)
        then of_char c + 0x20
        else of_char c)"
  by (simp add: lower_char_def Let_def)

lemma keys_lower: "list_all (\<lambda>k. lower k = k) (keys JOKE_STYLES)"
  by code_simp

lemma lower_key: "s \<in> set (keys JOKE_STYLES) \<Longrightarrow> lower s = s"
  using keys_lower by (simp add: list_all_iff)

lemma resolved_known: "s \<in> set (keys JOKE_STYLES) \<Longrightarrow> resolved_style (Some s) = s"
  by (simp add: resolved_style_def lower_key)

lemma template_split:
  assumes "s \<in> set (keys JOKE_STYLES)"
  shows "map_of JOKE_STYLES s = Some (before_slot (template_of s) @ ''{topic}'' @ after_slot (template_of s))
         \<and> plain (before_slot (template_of s)) \<and> plain (after_slot (template_of s))"
proof -
  from assms obtain t where t: "map_of JOKE_STYLES s = Some t" by (auto simp: in_keys)
  then have "one_topic_slot t" by (rule catalog_lookup)
  with t show ?thesis by (simp add: template_of_def one_topic_slot_def)
qed

lemma classic_text:
  "substitute (template_of ''classic'') T
     = ''You are an expert comedian skilled with puns and dad jokes. Create a joke about '' @ T
       @ '' that is appropriate for a workplace. Use classic dad joke style with groan-worthy puns and wholesome humor.''"
proof -
  have "before_slot (template_of ''classic'')
          = ''You are an expert comedian skilled with puns and dad jokes. Create a joke about ''"
    by code_simp
  moreover have "after_slot (template_of ''classic'')
          = '' that is appropriate for a workplace. Use classic dad joke style with groan-worthy puns and wholesome humor.''"
    by code_simp
  ultimately show ?thesis by (simp add: substitute_def)
qed

lemma lower_PUN: "lower ''PUN'' = ''pun''"
  by code_simp

lemma warning_logged:
  assumes "map_of a ''topic'' = Some T" and "map_of a ''style'' = Some s"
    and "lower s \<notin> set (keys JOKE_STYLES)"
  shows "\<lparr>levelname = WARNING,
          msg = ''Unknown joke style '' @ [CHR 0x27] @ lower s @ [CHR 0x27]
                @ '', falling back to 'classic'' @ [CHR 0x27],
          extra = [(''request_id'', PStr (uuid4 amb)),
                   (''requested_style'', PStr (lower s)),
                   (''available_styles'', PList (map PStr (keys JOKE_STYLES)))]\<rparr>
         \<in> set (fst (get_prompt st amb ''dad_joke'' (Some a)))"
proof -
  from assms(1) have ne: "a \<noteq> []" by auto
  from assms(3) have un: "map_of JOKE_STYLES (lower s) = None" by (simp add: in_keys)
  obtain t where t: "map_of JOKE_STYLES ''classic'' = Some t"
    using classic_in_keys by (auto simp: in_keys)
  show ?thesis
    using assms(1,2) ne un t format_template [OF t, of T]
    by (simp add: get_prompt_def Let_def)
qed

section \<open>Claims\<close>

text \<open>
  C1, as the code has it. For every style, \<open>get_prompt\<close> under the name \<open>dad_joke\<close> raises
  the missing-argument error when there are no arguments or when the arguments hold no
  \<open>topic\<close> entry. An entry that holds the empty string is present: the call then succeeds and
  returns the response for the empty topic. The claim as written, which has the empty topic
  rejected, fails on the request with topic \<open>''''\<close> and style \<open>pun\<close>.
\<close>

theorem missing_topic_fails:
  "snd (get_prompt st amb ''dad_joke'' None) = Inl MissingArgument
   \<and> (map_of a ''topic'' = None \<longrightarrow>
        snd (get_prompt st amb ''dad_joke'' (Some a)) = Inl MissingArgument)
   \<and> (map_of b ''topic'' = Some [] \<longrightarrow>
        snd (get_prompt st amb ''dad_joke'' (Some b))
          = Inr (response [] (resolved_style (map_of b ''style''))))"
  by (simp add: get_prompt_outcome outcome_def)

theorem missing_topic_fails_witness:
  "map_of [(''style'', ''pun'')] ''topic'' = None
   \<and> snd (get_prompt default_settings sample_ambient ''dad_joke'' (Some [(''style'', ''pun'')]))
       = Inl MissingArgument
   \<and> map_of [(''topic'', ''''), (''style'', ''pun'')] ''topic'' = Some []
   \<and> snd (get_prompt default_settings sample_ambient ''dad_joke''
             (Some [(''topic'', ''''), (''style'', ''pun'')]))
       = Inr (response [] ''pun'')"
proof -
  have "resolved_style (Some ''pun'') = ''pun''" by code_simp
  then show ?thesis
    using missing_topic_fails [of default_settings sample_ambient "[(''style'', ''pun'')]"
            "[(''topic'', ''''), (''style'', ''pun'')]"]
    by simp
qed

text \<open>The request on which C1 fails as it is written.\<close>

theorem empty_topic_counterexample:
  "snd (get_prompt default_settings sample_ambient ''dad_joke''
          (Some [(''topic'', ''''), (''style'', ''pun'')])) \<noteq> Inl MissingArgument"
  by (simp add: get_prompt_outcome outcome_def)

text \<open>
  C2. For a non-empty topic and a style that is absent, or whose lower-case form is not an
  identifier of the catalog (the empty string and unknown words in any case among them),
  \<open>get_prompt\<close> succeeds with the response of the \<open>classic\<close> template, described as
  \<open>classic\<close>; when a style was given, a warning naming the requested style in lower case
  and the identifiers of the catalog is handed to the logger.
\<close>

theorem unknown_style_falls_back:
  assumes "T \<noteq> []" and "map_of a ''topic'' = Some T"
    and "case map_of a ''style'' of None \<Rightarrow> True | Some s \<Rightarrow> lower s \<notin> set (keys JOKE_STYLES)"
  shows "snd (get_prompt st amb ''dad_joke'' (Some a))
           = Inr \<lparr>gpr_description = ''Dad joke prompt about '' @ T @ '' in classic style'',
                  gpr_messages =
                    [\<lparr>pm_role = ''user'',
                      pm_content =
                        \<lparr>tc_type = ''text'',
                         tc_text = ''You are an expert comedian skilled with puns and dad jokes. Create a joke about ''
                                   @ T @ '' that is appropriate for a workplace. Use classic dad joke style with groan-worthy puns and wholesome humor.''\<rparr>\<rparr>]\<rparr>
         \<and> (\<forall>s. map_of a ''style'' = Some s \<longrightarrow>
               \<lparr>levelname = WARNING,
                msg = ''Unknown joke style '' @ [CHR 0x27] @ lower s @ [CHR 0x27]
                      @ '', falling back to 'classic'' @ [CHR 0x27],
                extra = [(''request_id'', PStr (uuid4 amb)),
                         (''requested_style'', PStr (lower s)),
                         (''available_styles'', PList (map PStr (keys JOKE_STYLES)))]\<rparr>
               \<in> set (fst (get_prompt st amb ''dad_joke'' (Some a))))"
proof -
  have "resolved_style (map_of a ''style'') = ''classic''"
    using assms(3) by (simp add: resolved_style_def split: option.splits)
  then have "snd (get_prompt st amb ''dad_joke'' (Some a)) = Inr (response T ''classic'')"
    using assms(2) by (simp add: get_prompt_outcome outcome_def)
  then have res: "snd (get_prompt st amb ''dad_joke'' (Some a))
           = Inr \<lparr>gpr_description = ''Dad joke prompt about '' @ T @ '' in classic style'',
                  gpr_messages =
                    [\<lparr>pm_role = ''user'',
                      pm_content =
                        \<lparr>tc_type = ''text'',
                         tc_text = ''You are an expert comedian skilled with puns and dad jokes. Create a joke about ''
                                   @ T @ '' that is appropriate for a workplace. Use classic dad joke style with groan-worthy puns and wholesome humor.''\<rparr>\<rparr>]\<rparr>"
    by (simp add: response_def classic_text)
  show ?thesis
  proof (intro conjI allI impI)
    show "snd (get_prompt st amb ''dad_joke'' (Some a))
           = Inr \<lparr>gpr_description = ''Dad joke prompt about '' @ T @ '' in classic style'',
                  gpr_messages =
                    [\<lparr>pm_role = ''user'',
                      pm_content =
                        \<lparr>tc_type = ''text'',
                         tc_text = ''You are an expert comedian skilled with puns and dad jokes. Create a joke about ''
                                   @ T @ '' that is appropriate for a workplace. Use classic dad joke style with groan-worthy puns and wholesome humor.''\<rparr>\<rparr>]\<rparr>"
      by (rule res)
  next
    fix s
    assume s: "map_of a ''style'' = Some s"
    with assms(3) have "lower s \<notin> set (keys JOKE_STYLES)" by simp
    with assms(2) s
    show "\<lparr>levelname = WARNING,
                msg = ''Unknown joke style '' @ [CHR 0x27] @ lower s @ [CHR 0x27]
                      @ '', falling back to 'classic'' @ [CHR 0x27],
                extra = [(''request_id'', PStr (uuid4 amb)),
                         (''requested_style'', PStr (lower s)),
                         (''available_styles'', PList (map PStr (keys JOKE_STYLES)))]\<rparr>
               \<in> set (fst (get_prompt st amb ''dad_joke'' (Some a)))"
      by (rule warning_logged)
  qed
qed

theorem unknown_style_falls_back_witness:
  "''mathematics'' \<noteq> []
   \<and> map_of [(''topic'', ''mathematics''), (''style'', ''XYZ-unknown'')] ''topic'' = Some ''mathematics''
   \<and> lower ''XYZ-unknown'' \<notin> set (keys JOKE_STYLES)
   \<and> lower '''' \<notin> set (keys JOKE_STYLES)
   \<and> lower [CHR 0xC9, CHR ''T'', CHR 0xC9] = [CHR 0xE9, CHR ''t'', CHR 0xE9]
   \<and> lower [CHR 0xC9, CHR ''T'', CHR 0xC9] \<notin> set (keys JOKE_STYLES)
   \<and> snd (get_prompt default_settings sample_ambient ''dad_joke''
             (Some [(''topic'', ''mathematics''), (''style'', ''XYZ-unknown'')]))
       = Inr (response ''mathematics'' ''classic'')
   \<and> snd (get_prompt default_settings sample_ambient ''dad_joke''
             (Some [(''topic'', ''mathematics''), (''style'', '''')]))
       = Inr (response ''mathematics'' ''classic'')
   \<and> snd (get_prompt default_settings sample_ambient ''dad_joke''
             (Some [(''topic'', ''mathematics'')]))
       = Inr (response ''mathematics'' ''classic'')
   \<and> snd (get_prompt default_settings sample_ambient ''dad_joke''
             (Some [(''topic'', ''mathematics''), (''style'', [CHR 0xC9, CHR ''T'', CHR 0xC9])]))
       = Inr (response ''mathematics'' ''classic'')
   \<and> \<lparr>levelname = WARNING,
       msg = ''Unknown joke style '' @ [CHR 0x27] @ ''xyz-unknown'' @ [CHR 0x27]
             @ '', falling back to 'classic'' @ [CHR 0x27],
       extra = [(''request_id'', PStr (uuid4 sample_ambient)),
                (''requested_style'', PStr ''xyz-unknown''),
                (''available_styles'', PList (map PStr (keys JOKE_STYLES)))]\<rparr>
       \<in> set (fst (get_prompt default_settings sample_ambient ''dad_joke''
                      (Some [(''topic'', ''mathematics''), (''style'', ''XYZ-unknown'')])))
   \<and> \<lparr>levelname = WARNING,
       msg = ''Unknown joke style '' @ [CHR 0x27] @ [CHR 0xE9, CHR ''t'', CHR 0xE9] @ [CHR 0x27]
             @ '', falling back to 'classic'' @ [CHR 0x27],
       extra = [(''request_id'', PStr (uuid4 sample_ambient)),
                (''requested_style'', PStr [CHR 0xE9, CHR ''t'', CHR 0xE9]),
                (''available_styles'', PList (map PStr (keys JOKE_STYLES)))]\<rparr>
       \<in> set (fst (get_prompt default_settings sample_ambient ''dad_joke''
                      (Some [(''topic'', ''mathematics''),
                             (''style'', [CHR 0xC9, CHR ''T'', CHR 0xC9])])))"
proof -
  have u: "lower ''XYZ-unknown'' \<notin> set (keys JOKE_STYLES)" by code_simp
  have e: "lower '''' \<notin> set (keys JOKE_STYLES)" by code_simp
  have l: "lower [CHR 0xC9, CHR ''T'', CHR 0xC9] \<notin> set (keys JOKE_STYLES)" by code_simp
  have lu: "lower ''XYZ-unknown'' = ''xyz-unknown''" by code_simp
  have ll: "lower [CHR 0xC9, CHR ''T'', CHR 0xC9] = [CHR 0xE9, CHR ''t'', CHR 0xE9]" by code_simp
  have r: "response ''mathematics'' ''classic''
             = \<lparr>gpr_description = ''Dad joke prompt about '' @ ''mathematics'' @ '' in classic style'',
                  gpr_messages =
                    [\<lparr>pm_role = ''user'',
                      pm_content =
                        \<lparr>tc_type = ''text'',
                         tc_text = ''You are an expert comedian skilled with puns and dad jokes. Create a joke about ''
                                   @ ''mathematics'' @ '' that is appropriate for a workplace. Use classic dad joke style with groan-worthy puns and wholesome humor.''\<rparr>\<rparr>]\<rparr>"
    by (simp add: response_def classic_text)
  show ?thesis
    using u e l
      unknown_style_falls_back [of "''mathematics''"
        "[(''topic'', ''mathematics''), (''style'', ''XYZ-unknown'')]" default_settings sample_ambient]
      unknown_style_falls_back [of "''mathematics''"
        "[(''topic'', ''mathematics''), (''style'', '''')]" default_settings sample_ambient]
      unknown_style_falls_back [of "''mathematics''"
        "[(''topic'', ''mathematics'')]" default_settings sample_ambient]
      unknown_style_falls_back [of "''mathematics''"
        "[(''topic'', ''mathematics''), (''style'', [CHR 0xC9, CHR ''T'', CHR 0xC9])]"
        default_settings sample_ambient]
    unfolding r by (simp add: lu ll)
qed

text \<open>
  C3, as the code has it. For topic \<open>chickens\<close> and style \<open>knock-knock\<close> the response has
  one message; its text begins with \<open>You are skilled at creating knock-knock jokes.\<close>,
  contains the phrase \<open>Knock knock.\<close> further on, inside the quoted format, and contains
  \<open>chickens\<close>. The claim as written, which has the text begin with \<open>Knock knock.\<close>, fails.
\<close>

theorem knock_knock_chickens:
  "\<exists>t. message_texts (snd (get_prompt st amb ''dad_joke''
            (Some [(''topic'', ''chickens''), (''style'', ''knock-knock'')]))) = [t]
       \<and> t = ''You are skilled at creating knock-knock jokes. Create a knock-knock joke about chickens that uses clever wordplay. Follow the classic format: 'Knock knock. Who's there? [X]. [X] who? [Punchline].'' @ [CHR 0x27]
       \<and> prefix ''You are skilled at creating knock-knock jokes.'' t
       \<and> \<not> prefix ''Knock knock.'' t
       \<and> sublist ''Knock knock.'' t
       \<and> sublist ''chickens'' t"
proof -
  let ?t = "''You are skilled at creating knock-knock jokes. Create a knock-knock joke about chickens that uses clever wordplay. Follow the classic format: 'Knock knock. Who's there? [X]. [X] who? [Punchline].'' @ [CHR 0x27]"
  have "message_texts (outcome ''dad_joke''
            (Some [(''topic'', ''chickens''), (''style'', ''knock-knock'')])) = [?t]"
    by code_simp
  moreover have "prefix ''You are skilled at creating knock-knock jokes.'' ?t" by code_simp
  moreover have "\<not> prefix ''Knock knock.'' ?t" by code_simp
  moreover have "sublist ''Knock knock.'' ?t" by code_simp
  moreover have "sublist ''chickens'' ?t" by code_simp
  ultimately show ?thesis unfolding get_prompt_outcome by blast
qed

text \<open>The request on which C3 fails as it is written.\<close>

theorem knock_knock_counterexample:
  "\<not> list_ex (prefix ''Knock knock.'')
       (message_texts (snd (get_prompt default_settings sample_ambient ''dad_joke''
          (Some [(''topic'', ''chickens''), (''style'', ''knock-knock'')]))))"
  unfolding get_prompt_outcome by code_simp

text \<open>
  C4. For a non-empty topic \<open>T\<close> and a style \<open>S\<close> that is an identifier of the catalog,
  \<open>get_prompt\<close> under the name \<open>dad_joke\<close> succeeds. The template of \<open>S\<close> is a brace-free
  text, the slot \<open>{topic}\<close> and a brace-free text; the message text is the same with the
  whole of \<open>T\<close> in place of the whole slot, so it is not empty and contains \<open>T\<close>.
\<close>

theorem known_style_substitutes_topic:
  assumes "T \<noteq> []" and "S \<in> set (keys JOKE_STYLES)"
    and "map_of a ''topic'' = Some T" and "map_of a ''style'' = Some S"
  shows "\<exists>pre post.
           map_of JOKE_STYLES S = Some (pre @ ''{topic}'' @ post)
           \<and> plain pre \<and> plain post
           \<and> snd (get_prompt st amb ''dad_joke'' (Some a))
               = Inr \<lparr>gpr_description = ''Dad joke prompt about '' @ T @ '' in '' @ S @ '' style'',
                      gpr_messages = [\<lparr>pm_role = ''user'',
                                       pm_content = \<lparr>tc_type = ''text'',
                                                     tc_text = pre @ T @ post\<rparr>\<rparr>]\<rparr>
           \<and> pre @ T @ post \<noteq> []
           \<and> sublist T (pre @ T @ post)"
proof -
  let ?pre = "before_slot (template_of S)" and ?post = "after_slot (template_of S)"
  have "snd (get_prompt st amb ''dad_joke'' (Some a)) = Inr (response T S)"
    using assms by (simp add: get_prompt_outcome outcome_def resolved_known)
  then have "snd (get_prompt st amb ''dad_joke'' (Some a))
               = Inr \<lparr>gpr_description = ''Dad joke prompt about '' @ T @ '' in '' @ S @ '' style'',
                      gpr_messages = [\<lparr>pm_role = ''user'',
                                       pm_content = \<lparr>tc_type = ''text'',
                                                     tc_text = ?pre @ T @ ?post\<rparr>\<rparr>]\<rparr>"
    by (simp add: response_def substitute_def)
  moreover have "?pre @ T @ ?post \<noteq> []" using assms(1) by simp
  moreover have "sublist T (?pre @ T @ ?post)" by simp
  ultimately show ?thesis using template_split [OF assms(2)] by blast
qed

theorem known_style_substitutes_topic_witness:
  "''chickens'' \<noteq> [] \<and> ''pun'' \<in> set (keys JOKE_STYLES)
   \<and> map_of [(''topic'', ''chickens''), (''style'', ''pun'')] ''topic'' = Some ''chickens''
   \<and> map_of [(''topic'', ''chickens''), (''style'', ''pun'')] ''style'' = Some ''pun''
   \<and> (\<exists>pre post.
           map_of JOKE_STYLES ''pun'' = Some (pre @ ''{topic}'' @ post)
           \<and> plain pre \<and> plain post
           \<and> snd (get_prompt default_settings sample_ambient ''dad_joke''
                    (Some [(''topic'', ''chickens''), (''style'', ''pun'')]))
               = Inr \<lparr>gpr_description = ''Dad joke prompt about chickens in pun style'',
                      gpr_messages = [\<lparr>pm_role = ''user'',
                                       pm_content = \<lparr>tc_type = ''text'',
                                                     tc_text = pre @ ''chickens'' @ post\<rparr>\<rparr>]\<rparr>
           \<and> pre @ ''chickens'' @ post \<noteq> []
           \<and> sublist ''chickens'' (pre @ ''chickens'' @ post))"
proof -
  have h1: "''chickens'' \<noteq> []" by simp
  have h2: "''pun'' \<in> set (keys JOKE_STYLES)" by (simp add: keys_def JOKE_STYLES_def)
  have h3: "map_of [(''topic'', ''chickens''), (''style'', ''pun'')] ''topic'' = Some ''chickens''"
    by simp
  have h4: "map_of [(''topic'', ''chickens''), (''style'', ''pun'')] ''style'' = Some ''pun''"
    by simp
  show ?thesis
    using h1 h2 h3 h4
      known_style_substitutes_topic [OF h1 h2 h3 h4, of default_settings sample_ambient]
    by simp
qed

text \<open>
  C5. For every topic the styles \<open>PUN\<close> and \<open>pun\<close> get the same outcome, and so do any two
  requests with the same topic whose styles have the same lower-case form.
\<close>

theorem style_case_insensitive:
  "snd (get_prompt st amb ''dad_joke'' (Some [(''topic'', T), (''style'', ''PUN'')]))
     = snd (get_prompt st' amb' ''dad_joke'' (Some [(''topic'', T), (''style'', ''pun'')]))
   \<and> (lower s1 = lower s2 \<longrightarrow>
        map_of a ''topic'' = map_of b ''topic'' \<longrightarrow>
        map_of a ''style'' = Some s1 \<longrightarrow> map_of b ''style'' = Some s2 \<longrightarrow>
          snd (get_prompt st amb ''dad_joke'' (Some a))
            = snd (get_prompt st' amb' ''dad_joke'' (Some b)))"
proof -
  have "resolved_style (Some ''PUN'') = resolved_style (Some ''pun'')"
    by (simp add: resolved_style_def lower_PUN lower_key [of "''pun''"] keys_def JOKE_STYLES_def)
  then show ?thesis
    by (auto simp: get_prompt_outcome outcome_def resolved_style_def split: option.splits)
qed

theorem style_case_insensitive_witness:
  "lower ''Knock-KNOCK'' = lower ''knock-knock''
   \<and> map_of [(''topic'', ''owls''), (''style'', ''Knock-KNOCK'')] ''topic''
       = map_of [(''style'', ''knock-knock''), (''topic'', ''owls'')] ''topic''
   \<and> map_of [(''topic'', ''owls''), (''style'', ''Knock-KNOCK'')] ''style'' = Some ''Knock-KNOCK''
   \<and> map_of [(''style'', ''knock-knock''), (''topic'', ''owls'')] ''style'' = Some ''knock-knock''
   \<and> snd (get_prompt default_settings sample_ambient ''dad_joke''
             (Some [(''topic'', ''owls''), (''style'', ''Knock-KNOCK'')]))
       = snd (get_prompt default_settings sample_ambient ''dad_joke''
             (Some [(''style'', ''knock-knock''), (''topic'', ''owls'')]))"
proof -
  have l: "lower ''Knock-KNOCK'' = lower ''knock-knock''" by code_simp
  show ?thesis
    using l style_case_insensitive
            [of default_settings sample_ambient _ default_settings sample_ambient
                "''Knock-KNOCK''" "''knock-knock''"
                "[(''topic'', ''owls''), (''style'', ''Knock-KNOCK'')]"
                "[(''style'', ''knock-knock''), (''topic'', ''owls'')]"]
    by simp
qed

text \<open>
  C6. Whatever the arguments (none at all, or any dictionary), \<open>get_prompt\<close> called with a
  name other than \<open>dad_joke\<close> raises the unknown-operation error carrying that name, and that
  error is not the missing-argument one.
\<close>

theorem unknown_operation_fails:
  "name \<noteq> ''dad_joke'' \<Longrightarrow>
     snd (get_prompt st amb name arguments) = Inl (UnknownOperation name)
     \<and> UnknownOperation name \<noteq> MissingArgument"
  by (simp add: get_prompt_outcome outcome_def UnknownOperation_def MissingArgument_def)

theorem unknown_operation_fails_witness:
  "''not_a_real_op'' \<noteq> ''dad_joke''
   \<and> snd (get_prompt default_settings sample_ambient ''not_a_real_op''
             (Some [(''topic'', ''chickens''), (''style'', ''pun'')]))
       = Inl (UnknownOperation ''not_a_real_op'')
   \<and> snd (get_prompt default_settings sample_ambient ''not_a_real_op'' None)
       = Inl (UnknownOperation ''not_a_real_op'')"
  using unknown_operation_fails [of "''not_a_real_op''" default_settings sample_ambient
          "Some [(''topic'', ''chickens''), (''style'', ''pun'')]"]
        unknown_operation_fails [of "''not_a_real_op''" default_settings sample_ambient None]
  by simp

text \<open>
  C7. The catalog has exactly the eight identifiers \<open>pun\<close>, \<open>wordplay\<close>, \<open>observational\<close>,
  \<open>anti-humor\<close>, \<open>question-answer\<close>, \<open>one-liner\<close>, \<open>knock-knock\<close> and \<open>classic\<close>, in this
  order and each once, with eight different templates; \<open>classic\<close> is among them. Every
  template is a well-formed format string whose only replacement field is \<open>topic\<close>, and
  formatting it with any topic returns a string instead of raising.
\<close>

theorem catalog_invariants:
  "keys JOKE_STYLES = [''pun'', ''wordplay'', ''observational'', ''anti-humor'',
                       ''question-answer'', ''one-liner'', ''knock-knock'', ''classic'']
   \<and> length JOKE_STYLES = 8
   \<and> distinct (keys JOKE_STYLES)
   \<and> distinct (map snd JOKE_STYLES)
   \<and> ''classic'' \<in> set (keys JOKE_STYLES)
   \<and> map (\<lambda>(k, t). slots (parse_format t)) JOKE_STYLES = replicate 8 [''topic'']
   \<and> list_all (\<lambda>(k, t). well_formed (parse_format t)) JOKE_STYLES
   \<and> (\<forall>T. list_all (\<lambda>(k, t). format_kw t [(''topic'', T)] = Inr (substitute t T)) JOKE_STYLES)"
proof -
  have k: "keys JOKE_STYLES = [''pun'', ''wordplay'', ''observational'', ''anti-humor'',
                       ''question-answer'', ''one-liner'', ''knock-knock'', ''classic'']"
    by (simp add: keys_def JOKE_STYLES_def)
  have "length JOKE_STYLES = 8" by (simp add: JOKE_STYLES_def)
  moreover have "distinct (keys JOKE_STYLES)" unfolding k by simp
  moreover have "distinct (map snd JOKE_STYLES)" by code_simp
  moreover have "map (\<lambda>(k, t). slots (parse_format t)) JOKE_STYLES = replicate 8 [''topic'']"
    by code_simp
  moreover have "list_all (\<lambda>(k, t). well_formed (parse_format t)) JOKE_STYLES"
    by code_simp
  moreover have "list_all (\<lambda>(k, t). format_kw t [(''topic'', T)] = Inr (substitute t T)) JOKE_STYLES"
    for T
    using catalog_slots by (auto simp: list_all_iff format_slot)
  ultimately show ?thesis using k classic_in_keys by simp
qed

text \<open>
  C8. What \<open>list_prompts\<close> returns does not depend on the settings or on the ambient
  values. The description of its \<open>style\<close> argument enumerates the keys of the catalog,
  joined by a comma and a space, in declaration order; splitting the enumeration gives the
  keys back. What \<open>get_prompt\<close> returns or raises does not depend on the settings, the
  request identifier or the clock either.
\<close>

theorem handlers_deterministic:
  "snd (list_prompts st amb) = snd (list_prompts st' amb')
   \<and> map (\<lambda>p. map pa_description (p_arguments p)) (snd (list_prompts st amb))
       = [[''The topic or subject for the dad joke'',
           ''The style of dad joke. Options: '' @ join '', '' (keys JOKE_STYLES)
             @ ''. Default: classic'']]
   \<and> ''The style of dad joke. Options: '' @ join '', '' (keys JOKE_STYLES) @ ''. Default: classic''
       = ''The style of dad joke. Options: pun, wordplay, observational, anti-humor, question-answer, one-liner, knock-knock, classic. Default: classic''
   \<and> split (join '', '' (keys JOKE_STYLES)) '', '' = keys JOKE_STYLES
   \<and> keys JOKE_STYLES = [''pun'', ''wordplay'', ''observational'', ''anti-humor'',
                         ''question-answer'', ''one-liner'', ''knock-knock'', ''classic'']
   \<and> snd (get_prompt st amb name arguments) = snd (get_prompt st' amb' name arguments)"
proof -
  have k: "keys JOKE_STYLES = [''pun'', ''wordplay'', ''observational'', ''anti-humor'',
                       ''question-answer'', ''one-liner'', ''knock-knock'', ''classic'']"
    by (simp add: keys_def JOKE_STYLES_def)
  have "snd (list_prompts st amb) = snd (list_prompts st' amb')"
    by (simp add: list_prompts_def Let_def)
  moreover have "map (\<lambda>p. map pa_description (p_arguments p)) (snd (list_prompts st amb))
       = [[''The topic or subject for the dad joke'',
           ''The style of dad joke. Options: '' @ join '', '' (keys JOKE_STYLES)
             @ ''. Default: classic'']]"
    by (simp add: list_prompts_def Let_def)
  moreover have "''The style of dad joke. Options: '' @ join '', '' (keys JOKE_STYLES) @ ''. Default: classic''
       = ''The style of dad joke. Options: pun, wordplay, observational, anti-humor, question-answer, one-liner, knock-knock, classic. Default: classic''"
    unfolding k by simp
  moreover have "snd (get_prompt st amb name arguments) = snd (get_prompt st' amb' name arguments)"
    by (simp add: get_prompt_outcome)
  ultimately show ?thesis using k split_join_keys by simp
qed

text \<open>
  C9. A response returned by \<open>get_prompt\<close> has exactly one message, of role \<open>user\<close>, whose
  text is the template of the resolved style formatted with the topic, that is the template
  with the topic in place of its slot; its description is built from the topic and the
  resolved style and contains both.
\<close>

theorem response_shape:
  assumes "snd (get_prompt st amb name arguments) = Inr r"
  shows "\<exists>a T style pre post.
           name = ''dad_joke'' \<and> arguments = Some a \<and> map_of a ''topic'' = Some T
           \<and> style = resolved_style (map_of a ''style'')
           \<and> map_of JOKE_STYLES style = Some (pre @ ''{topic}'' @ post)
           \<and> plain pre \<and> plain post
           \<and> format_kw (pre @ ''{topic}'' @ post) [(''topic'', T)] = Inr (pre @ T @ post)
           \<and> gpr_messages r = [\<lparr>pm_role = ''user'',
                                 pm_content = \<lparr>tc_type = ''text'', tc_text = pre @ T @ post\<rparr>\<rparr>]
           \<and> length (gpr_messages r) = 1
           \<and> gpr_description r = ''Dad joke prompt about '' @ T @ '' in '' @ style @ '' style''
           \<and> sublist T (gpr_description r) \<and> sublist style (gpr_description r)"
proof -
  from assms have o: "outcome name arguments = Inr r" by (simp add: get_prompt_outcome)
  then have n: "name = ''dad_joke''"
    by (auto simp: outcome_def split: if_splits)
  from o n obtain a where a: "arguments = Some a"
    by (auto simp: outcome_def split: option.splits)
  from o n a obtain T where T: "map_of a ''topic'' = Some T"
    by (auto simp: outcome_def split: option.splits)
  define style where "style = resolved_style (map_of a ''style'')"
  let ?pre = "before_slot (template_of style)" and ?post = "after_slot (template_of style)"
  from o n a T have r: "r = response T style"
    by (simp add: outcome_def style_def)
  have k: "style \<in> set (keys JOKE_STYLES)" unfolding style_def by (rule resolved_in_keys)
  note ts = template_split [OF k]
  have f: "format_kw (?pre @ ''{topic}'' @ ?post) [(''topic'', T)] = Inr (?pre @ T @ ?post)"
    using ts by (intro format_one_slot) simp_all
  have m: "gpr_messages r = [\<lparr>pm_role = ''user'',
              pm_content = \<lparr>tc_type = ''text'', tc_text = ?pre @ T @ ?post\<rparr>\<rparr>]"
    by (simp add: r response_def substitute_def)
  have d: "gpr_description r = ''Dad joke prompt about '' @ T @ '' in '' @ style @ '' style''"
    by (simp add: r response_def)
  have s1: "sublist T (gpr_description r)" unfolding d by (rule sublist_appendI)
  have "sublist style ((''Dad joke prompt about '' @ T @ '' in '') @ style @ '' style'')"
    by (rule sublist_appendI)
  then have s2: "sublist style (gpr_description r)" unfolding d by simp
  show ?thesis
    using n a T style_def ts f m d s1 s2 by (intro exI [of _ a] exI [of _ T] exI [of _ style] exI [of _ ?pre] exI [of _ ?post]) simp
qed

theorem response_shape_witness:
  "snd (get_prompt default_settings sample_ambient ''dad_joke''
          (Some [(''topic'', ''owls''), (''style'', ''One-Liner'')]))
     = Inr (response ''owls'' ''one-liner'')
   \<and> (\<exists>a T style pre post.
           ''dad_joke'' = ''dad_joke''
           \<and> Some [(''topic'', ''owls''), (''style'', ''One-Liner'')] = Some a
           \<and> map_of a ''topic'' = Some T
           \<and> style = resolved_style (map_of a ''style'')
           \<and> map_of JOKE_STYLES style = Some (pre @ ''{topic}'' @ post)
           \<and> plain pre \<and> plain post
           \<and> format_kw (pre @ ''{topic}'' @ post) [(''topic'', T)] = Inr (pre @ T @ post)
           \<and> gpr_messages (response ''owls'' ''one-liner'')
               = [\<lparr>pm_role = ''user'',
                   pm_content = \<lparr>tc_type = ''text'', tc_text = pre @ T @ post\<rparr>\<rparr>]
           \<and> length (gpr_messages (response ''owls'' ''one-liner'')) = 1
           \<and> gpr_description (response ''owls'' ''one-liner'')
               = ''Dad joke prompt about '' @ T @ '' in '' @ style @ '' style''
           \<and> sublist T (gpr_description (response ''owls'' ''one-liner''))
           \<and> sublist style (gpr_description (response ''owls'' ''one-liner'')))"
proof -
  have "resolved_style (Some ''One-Liner'') = ''one-liner''" by code_simp
  then have h: "snd (get_prompt default_settings sample_ambient ''dad_joke''
          (Some [(''topic'', ''owls''), (''style'', ''One-Liner'')]))
     = Inr (response ''owls'' ''one-liner'')"
    by (simp add: get_prompt_outcome outcome_def)
  from h response_shape [OF h] show ?thesis by blast
qed

text \<open>
  C10. Two argument dictionaries that agree on their \<open>topic\<close> and \<open>style\<close> entries get the
  same outcome from \<open>get_prompt\<close> under the name \<open>dad_joke\<close>, whatever other keys they hold
  and whatever the settings and the ambient values of the two calls.
\<close>

theorem extra_arguments_ignored:
  "map_of a ''topic'' = map_of b ''topic'' \<Longrightarrow>
   map_of a ''style'' = map_of b ''style'' \<Longrightarrow>
     snd (get_prompt st amb ''dad_joke'' (Some a)) = snd (get_prompt st' amb' ''dad_joke'' (Some b))"
  by (simp add: get_prompt_outcome outcome_def split: option.splits)

theorem extra_arguments_ignored_witness:
  "map_of [(''topic'', ''cats''), (''style'', ''pun''), (''mood'', ''grumpy'')] ''topic''
     = map_of [(''limit'', ''3''), (''style'', ''pun''), (''topic'', ''cats'')] ''topic''
   \<and> map_of [(''topic'', ''cats''), (''style'', ''pun''), (''mood'', ''grumpy'')] ''style''
     = map_of [(''limit'', ''3''), (''style'', ''pun''), (''topic'', ''cats'')] ''style''
   \<and> snd (get_prompt default_settings sample_ambient ''dad_joke''
             (Some [(''topic'', ''cats''), (''style'', ''pun''), (''mood'', ''grumpy'')]))
     = snd (get_prompt default_settings sample_ambient ''dad_joke''
             (Some [(''limit'', ''3''), (''style'', ''pun''), (''topic'', ''cats'')]))"
  using extra_arguments_ignored
          [of "[(''topic'', ''cats''), (''style'', ''pun''), (''mood'', ''grumpy'')]"
              "[(''limit'', ''3''), (''style'', ''pun''), (''topic'', ''cats'')]"
              default_settings sample_ambient default_settings sample_ambient]
  by simp

end
